theory Spec2Isabelle
  imports Complex_Main "HOL-Library.Finite_Map"
begin

section \<open>Python values, errors and the operations the rules use\<close>

text \<open>
  The fact store of \<^verbatim>\<open>inference.py\<close> is a \<^verbatim>\<open>Dict[str, Any]\<close>. Its values are
  modelled by \<open>pyval\<close>: \<^verbatim>\<open>None\<close>, booleans, numbers (Python's \<^verbatim>\<open>int\<close> and
  \<^verbatim>\<open>float\<close> together, as reals: rounding and NaN are not modelled), strings (byte
  strings, UTF-8 for the non-ASCII letters of the Spanish texts), lists, and dictionaries
  with string keys (finite maps, so that equality ignores insertion order as Python's
  does). Values are trees: two keys of the store never share one mutable object.

  Every \<^verbatim>\<open>raise\<close> is a value \<open>Inl e\<close>. \<open>Unmodelled\<close> marks the few places where
  Python computes something this model does not follow (ordering two strings or two lists,
  iterating or indexing a non-empty string or dictionary); no theorem below says anything
  about a run that reaches one.
\<close>

datatype error = KeyError | TypeError | AttributeError | IndexError | ValueError | Unmodelled

datatype pyval =
    PNone
  | PBool bool
  | PNum real
  | PStr string
  | PList "pyval list"
  | PDict "(string, pyval) fmap"

type_synonym FactBase = "string \<rightharpoonup> pyval"

definition err_bind :: "error + 'a \<Rightarrow> ('a \<Rightarrow> error + 'b) \<Rightarrow> error + 'b" where
  "err_bind m k = (case m of Inl e \<Rightarrow> Inl e | Inr v \<Rightarrow> k v)"

text \<open>\<^verbatim>\<open>a and b\<close>, \<^verbatim>\<open>a or b\<close> on the truth values of the operands: the right operand is
  not looked at (so its error does not surface) when the left one decides.\<close>

definition py_and :: "error + bool \<Rightarrow> error + bool \<Rightarrow> error + bool" where
  "py_and a b = (case a of Inl e \<Rightarrow> Inl e | Inr t \<Rightarrow> if t then b else Inr False)"

definition py_or :: "error + bool \<Rightarrow> error + bool \<Rightarrow> error + bool" where
  "py_or a b = (case a of Inl e \<Rightarrow> Inl e | Inr t \<Rightarrow> if t then Inr True else b)"

text \<open>\<^verbatim>\<open>f[k]\<close> and \<^verbatim>\<open>f.get(k, d)\<close> on the fact store.\<close>

definition getitem :: "FactBase \<Rightarrow> string \<Rightarrow> error + pyval" where
  "getitem f k = (case f k of None \<Rightarrow> Inl KeyError | Some v \<Rightarrow> Inr v)"

definition dict_get :: "FactBase \<Rightarrow> string \<Rightarrow> pyval \<Rightarrow> pyval" where
  "dict_get f k d = (case f k of None \<Rightarrow> d | Some v \<Rightarrow> v)"

text \<open>Truth value of an object, as \<^verbatim>\<open>if\<close>, \<^verbatim>\<open>and\<close> and \<^verbatim>\<open>not\<close> take it.\<close>

fun truthy :: "pyval \<Rightarrow> bool" where
  "truthy PNone = False"
| "truthy (PBool b) = b"
| "truthy (PNum x) = (x \<noteq> 0)"
| "truthy (PStr s) = (s \<noteq> [])"
| "truthy (PList xs) = (xs \<noteq> [])"
| "truthy (PDict d) = (d \<noteq> fmempty)"

text \<open>Numbers, with \<^verbatim>\<open>True\<close> and \<^verbatim>\<open>False\<close> counting as 1 and 0.\<close>

fun num_of :: "pyval \<Rightarrow> real option" where
  "num_of (PNum x) = Some x"
| "num_of (PBool b) = Some (if b then 1 else 0)"
| "num_of PNone = None"
| "num_of (PStr s) = None"
| "num_of (PList xs) = None"
| "num_of (PDict d) = None"

fun is_seq :: "pyval \<Rightarrow> bool" where
  "is_seq (PStr s) = True"
| "is_seq (PList xs) = True"
| "is_seq PNone = False"
| "is_seq (PBool b) = False"
| "is_seq (PNum x) = False"
| "is_seq (PDict d) = False"

text \<open>The ordering comparisons \<^verbatim>\<open><\<close>, \<^verbatim>\<open><=\<close>, \<^verbatim>\<open>>\<close>, \<^verbatim>\<open>>=\<close>: between two
  numbers they compare, between a number and anything else (or on \<^verbatim>\<open>None\<close> and
  dictionaries) they raise \<^verbatim>\<open>TypeError\<close>.\<close>

definition py_compare :: "(real \<Rightarrow> real \<Rightarrow> bool) \<Rightarrow> pyval \<Rightarrow> pyval \<Rightarrow> error + bool" where
  "py_compare rel a b =
     (case num_of a of
        Some x \<Rightarrow> (case num_of b of Some y \<Rightarrow> Inr (rel x y) | None \<Rightarrow> Inl TypeError)
      | None \<Rightarrow>
          (if (\<exists>s t. a = PStr s \<and> b = PStr t) \<or> (\<exists>xs ys. a = PList xs \<and> b = PList ys)
           then Inl Unmodelled else Inl TypeError))"

definition py_ge :: "pyval \<Rightarrow> pyval \<Rightarrow> error + bool" where
  "py_ge a b = py_compare (\<lambda>x y. x \<ge> y) a b"

definition py_le :: "pyval \<Rightarrow> pyval \<Rightarrow> error + bool" where
  "py_le a b = py_compare (\<lambda>x y. x \<le> y) a b"

definition py_gt :: "pyval \<Rightarrow> pyval \<Rightarrow> error + bool" where
  "py_gt a b = py_compare (\<lambda>x y. x > y) a b"

definition py_lt :: "pyval \<Rightarrow> pyval \<Rightarrow> error + bool" where
  "py_lt a b = py_compare (\<lambda>x y. x < y) a b"

text \<open>\<^verbatim>\<open>==\<close>: structural, except that booleans equal the numbers 1 and 0.\<close>

primrec norm :: "pyval \<Rightarrow> pyval" where
  "norm PNone = PNone"
| "norm (PBool b) = PNum (if b then 1 else 0)"
| "norm (PNum x) = PNum x"
| "norm (PStr s) = PStr s"
| "norm (PList xs) = PList (map norm xs)"
| "norm (PDict d) = PDict (fmmap norm d)"

definition py_eq :: "pyval \<Rightarrow> pyval \<Rightarrow> bool" where
  "py_eq a b = (norm a = norm b)"

text \<open>\<^verbatim>\<open>len(v)\<close>; only whether it is zero is ever used (a string's length here counts bytes).\<close>

fun py_len :: "pyval \<Rightarrow> error + nat" where
  "py_len (PStr s) = Inr (length s)"
| "py_len (PList xs) = Inr (length xs)"
| "py_len (PDict d) = Inr (card (fmdom' d))"
| "py_len PNone = Inl TypeError"
| "py_len (PBool b) = Inl TypeError"
| "py_len (PNum x) = Inl TypeError"

text \<open>\<^verbatim>\<open>v["key"]\<close> with a string key, \<^verbatim>\<open>v[0]\<close>, \<^verbatim>\<open>m.get(key, default)\<close> on a value,
  and the items a \<^verbatim>\<open>for\<close> loop over a value visits.\<close>

fun subscript :: "pyval \<Rightarrow> string \<Rightarrow> error + pyval" where
  "subscript (PDict d) k = (case fmlookup d k of None \<Rightarrow> Inl KeyError | Some v \<Rightarrow> Inr v)"
| "subscript PNone k = Inl TypeError"
| "subscript (PBool b) k = Inl TypeError"
| "subscript (PNum x) k = Inl TypeError"
| "subscript (PStr s) k = Inl TypeError"
| "subscript (PList xs) k = Inl TypeError"

fun subscript0 :: "pyval \<Rightarrow> error + pyval" where
  "subscript0 (PList xs) = (case xs of [] \<Rightarrow> Inl IndexError | x # _ \<Rightarrow> Inr x)"
| "subscript0 (PStr s) = (if s = [] then Inl IndexError else Inl Unmodelled)"
| "subscript0 (PDict d) = Inl KeyError"
| "subscript0 PNone = Inl TypeError"
| "subscript0 (PBool b) = Inl TypeError"
| "subscript0 (PNum x) = Inl TypeError"

fun attr_get :: "pyval \<Rightarrow> string \<Rightarrow> pyval \<Rightarrow> error + pyval" where
  "attr_get (PDict d) k dflt = Inr (case fmlookup d k of None \<Rightarrow> dflt | Some v \<Rightarrow> v)"
| "attr_get PNone k dflt = Inl AttributeError"
| "attr_get (PBool b) k dflt = Inl AttributeError"
| "attr_get (PNum x) k dflt = Inl AttributeError"
| "attr_get (PStr s) k dflt = Inl AttributeError"
| "attr_get (PList xs) k dflt = Inl AttributeError"

fun py_iter :: "pyval \<Rightarrow> error + pyval list" where
  "py_iter (PList xs) = Inr xs"
| "py_iter (PStr s) = (if s = [] then Inr [] else Inl Unmodelled)"
| "py_iter (PDict d) = (if d = fmempty then Inr [] else Inl Unmodelled)"
| "py_iter PNone = Inl TypeError"
| "py_iter (PBool b) = Inl TypeError"
| "py_iter (PNum x) = Inl TypeError"

text \<open>\<^verbatim>\<open>str.lower()\<close> and \<^verbatim>\<open>str.capitalize()\<close> on ASCII letters; other bytes are kept.\<close>

definition lower_char :: "char \<Rightarrow> char" where
  "lower_char c =
     (case map_of (zip ''ABCDEFGHIJKLMNOPQRSTUVWXYZ'' ''abcdefghijklmnopqrstuvwxyz'') c of
        None \<Rightarrow> c | Some l \<Rightarrow> l)"

definition upper_char :: "char \<Rightarrow> char" where
  "upper_char c =
     (case map_of (zip ''abcdefghijklmnopqrstuvwxyz'' ''ABCDEFGHIJKLMNOPQRSTUVWXYZ'') c of
        None \<Rightarrow> c | Some u \<Rightarrow> u)"

definition lower :: "string \<Rightarrow> string" where
  "lower s = map lower_char s"

definition capitalize :: "string \<Rightarrow> string" where
  "capitalize s = (case s of [] \<Rightarrow> [] | c # cs \<Rightarrow> upper_char c # map lower_char cs)"

fun py_capitalize :: "pyval \<Rightarrow> error + string" where
  "py_capitalize (PStr s) = Inr (capitalize s)"
| "py_capitalize PNone = Inl AttributeError"
| "py_capitalize (PBool b) = Inl AttributeError"
| "py_capitalize (PNum x) = Inl AttributeError"
| "py_capitalize (PList xs) = Inl AttributeError"
| "py_capitalize (PDict d) = Inl AttributeError"

text \<open>A replacement field \<^verbatim>\<open>{v}\<close> of an f-string: a string is inserted as it is; how
  Python prints any other value (a float, say) is the parameter \<open>fmt\<close>.\<close>

definition py_format :: "(pyval \<Rightarrow> string) \<Rightarrow> pyval \<Rightarrow> string" where
  "py_format fmt v = (case v of PStr s \<Rightarrow> s | _ \<Rightarrow> fmt v)"


section \<open>data_loader.py: effectiveness\<close>

type_synonym chart = "string \<rightharpoonup> (string \<rightharpoonup> real)"

text \<open>The body of the \<^verbatim>\<open>for dt in defending_types\<close> loop, \<open>attacking\<close> already lowered.\<close>

fun effectiveness_loop :: "string \<Rightarrow> string list \<Rightarrow> chart \<Rightarrow> real \<Rightarrow> real" where
  "effectiveness_loop attacking [] chart tot = tot"
| "effectiveness_loop attacking (dt # dts) chart tot =
     (let dt' = lower dt;
          mul = (case chart attacking of
                   None \<Rightarrow> 1
                 | Some row \<Rightarrow> (case row dt' of None \<Rightarrow> 1 | Some m \<Rightarrow> m))
      in effectiveness_loop attacking dts chart (tot * mul))"

definition effectiveness :: "string \<Rightarrow> string list \<Rightarrow> chart \<Rightarrow> real" where
  "effectiveness attacking defending_types chart =
     effectiveness_loop (lower attacking) defending_types chart 1"

text \<open>The multiplier the chart holds for a pair of type names exactly as given, 1 when the
  pair is absent: the reading of "the chart's per-pair multiplier" that the effectiveness
  function is compared with.\<close>

definition pair_multiplier :: "chart \<Rightarrow> string \<Rightarrow> string \<Rightarrow> real" where
  "pair_multiplier chart a d =
     (case chart a of None \<Rightarrow> 1 | Some row \<Rightarrow> (case row d of None \<Rightarrow> 1 | Some m \<Rightarrow> m))"

definition fire_grass_chart :: chart where
  "fire_grass_chart = [''fire'' \<mapsto> [''grass'' \<mapsto> 2]]"


section \<open>main.py and app_streamlit.py: has_type_advantage\<close>

text \<open>Both files run the same loop over the attacking types, keeping the best multiplier.\<close>

fun best_loop :: "string list \<Rightarrow> string list \<Rightarrow> chart \<Rightarrow> real \<Rightarrow> real" where
  "best_loop [] defending_types chart best = best"
| "best_loop (t # ts) defending_types chart best =
     (let eff = effectiveness t defending_types chart
      in best_loop ts defending_types chart (if eff > best then eff else best))"

definition has_type_advantage :: "string list \<Rightarrow> string list \<Rightarrow> chart \<Rightarrow> bool" where
  "has_type_advantage attacking_types defending_types chart =
     (best_loop attacking_types defending_types chart 1 > 1)"

definition has_type_advantage_streamlit :: "string list \<Rightarrow> string list \<Rightarrow> chart \<Rightarrow> bool" where
  "has_type_advantage_streamlit attacking_types defending_types chart =
     (if attacking_types = [] \<or> defending_types = [] then False
      else best_loop attacking_types defending_types chart 1 > 1)"


section \<open>inference.py: rules and the forward-chaining loop\<close>

text \<open>A rule's condition is read through its truth value (\<^verbatim>\<open>if r.when(facts)\<close>); its
  action mutates the store, which the model returns updated.\<close>

record Rule =
  name :: string
  whenf :: "FactBase \<Rightarrow> error + bool"
  thenf :: "FactBase \<Rightarrow> error + FactBase"
  explain :: string

record InferenceResult =
  facts :: FactBase
  fired_rules :: "string list"
  trace :: "string list"

text \<open>The local variables of \<^verbatim>\<open>forward_chain\<close>.\<close>

record engine_state =
  cur_facts :: FactBase
  fired :: "string set"
  fired_any :: bool
  cur_trace :: "string list"

definition trace_line :: "Rule \<Rightarrow> string" where
  "trace_line r = ''['' @ name r @ ''] '' @ explain r"

text \<open>The three statements after \<^verbatim>\<open>r.then(facts)\<close>, given the store it left.\<close>

definition fire :: "Rule \<Rightarrow> FactBase \<Rightarrow> engine_state \<Rightarrow> engine_state" where
  "fire r f' st =
     st\<lparr>cur_facts := f', fired := insert (name r) (fired st), fired_any := True,
        cur_trace := cur_trace st @ [trace_line r]\<rparr>"

text \<open>The inner loop \<^verbatim>\<open>for r in rules\<close>: one sweep.\<close>

fun sweep :: "Rule list \<Rightarrow> engine_state \<Rightarrow> error + engine_state" where
  "sweep [] st = Inr st"
| "sweep (r # rs) st =
     (if name r \<in> fired st then sweep rs st
      else case whenf r (cur_facts st) of
             Inl e \<Rightarrow> Inl e
           | Inr b \<Rightarrow>
               if b then (case thenf r (cur_facts st) of
                            Inl e \<Rightarrow> Inl e
                          | Inr f' \<Rightarrow> sweep rs (fire r f' st))
               else sweep rs st)"

text \<open>The outer loop \<^verbatim>\<open>for _ in range(max_loops)\<close>, with the \<^verbatim>\<open>break\<close>.\<close>

fun loop :: "nat \<Rightarrow> Rule list \<Rightarrow> engine_state \<Rightarrow> error + engine_state" where
  "loop 0 rules st = Inr st"
| "loop (Suc n) rules st =
     (case sweep rules (st\<lparr>fired_any := False\<rparr>) of
        Inl e \<Rightarrow> Inl e
      | Inr st' \<Rightarrow> if \<not> fired_any st' then Inr st' else loop n rules st')"

definition init_state :: "FactBase \<Rightarrow> engine_state" where
  "init_state f = \<lparr>cur_facts = f, fired = {}, fired_any = False, cur_trace = []\<rparr>"

text \<open>
  \<^verbatim>\<open>fired\<close> is a Python \<^verbatim>\<open>set\<close>, and the result holds \<^verbatim>\<open>list(fired)\<close>. The order in
  which a set is iterated is not defined by the language (for strings it follows their
  hashes, which change from one process to the next), so it is the parameter
  \<open>list_of\<close>; all that Python promises about it is \<open>lists_set\<close>.
\<close>

definition lists_set :: "(string set \<Rightarrow> string list) \<Rightarrow> string set \<Rightarrow> bool" where
  "lists_set list_of S = (set (list_of S) = S \<and> distinct (list_of S))"

definition forward_chain ::
  "(string set \<Rightarrow> string list) \<Rightarrow> FactBase \<Rightarrow> Rule list \<Rightarrow> int \<Rightarrow> error + InferenceResult" where
  "forward_chain list_of f rules max_loops =
     (case loop (nat max_loops) rules (init_state f) of
        Inl e \<Rightarrow> Inl e
      | Inr st \<Rightarrow> Inr \<lparr>facts = cur_facts st, fired_rules = list_of (fired st),
                       trace = cur_trace st\<rparr>)"


subsection \<open>What happened during a run\<close>

text \<open>
  The code keeps no record of which rule fired when, nor a sweep counter. These functions
  follow the same recursion as \<open>sweep\<close> and \<open>loop\<close> and collect just that: the rules
  that fire in one sweep, in order, and the list of these logs, one per sweep begun.
\<close>

fun sweep_log :: "Rule list \<Rightarrow> engine_state \<Rightarrow> Rule list" where
  "sweep_log [] st = []"
| "sweep_log (r # rs) st =
     (if name r \<in> fired st then sweep_log rs st
      else case whenf r (cur_facts st) of
             Inl e \<Rightarrow> []
           | Inr b \<Rightarrow>
               if b then (case thenf r (cur_facts st) of
                            Inl e \<Rightarrow> []
                          | Inr f' \<Rightarrow> r # sweep_log rs (fire r f' st))
               else sweep_log rs st)"

fun sweep_logs :: "nat \<Rightarrow> Rule list \<Rightarrow> engine_state \<Rightarrow> Rule list list" where
  "sweep_logs 0 rules st = []"
| "sweep_logs (Suc n) rules st =
     sweep_log rules (st\<lparr>fired_any := False\<rparr>) #
     (case sweep rules (st\<lparr>fired_any := False\<rparr>) of
        Inl e \<Rightarrow> []
      | Inr st' \<Rightarrow> if \<not> fired_any st' then [] else sweep_logs n rules st')"

definition run_logs :: "FactBase \<Rightarrow> Rule list \<Rightarrow> int \<Rightarrow> Rule list list" where
  "run_logs f rules max_loops = sweep_logs (nat max_loops) rules (init_state f)"

definition firing_order :: "FactBase \<Rightarrow> Rule list \<Rightarrow> int \<Rightarrow> Rule list" where
  "firing_order f rules max_loops = concat (run_logs f rules max_loops)"

definition sweeps_done :: "FactBase \<Rightarrow> Rule list \<Rightarrow> int \<Rightarrow> nat" where
  "sweeps_done f rules max_loops = length (run_logs f rules max_loops)"


text \<open>An iteration order for sets of names: the names present, in the order of a fixed
  list (as a hash table visits its slots).\<close>

definition slot_order :: "string list \<Rightarrow> string set \<Rightarrow> string list" where
  "slot_order order S = filter (\<lambda>n. n \<in> S) order"

section \<open>kb.py: the knowledge base\<close>

text \<open>\<^verbatim>\<open>add_reco\<close>: \<^verbatim>\<open>setdefault\<close>, then \<^verbatim>\<open>append\<close> on whatever the key holds
  (only a list has \<^verbatim>\<open>append\<close>).\<close>

definition add_reco :: "FactBase \<Rightarrow> string \<Rightarrow> int \<Rightarrow> error + FactBase" where
  "add_reco f text priority =
     (let f1 = (if ''recommendations'' \<in> dom f then f else f(''recommendations'' \<mapsto> PList []))
      in case f1 ''recommendations'' of
           Some (PList recos) \<Rightarrow>
             Inr (f1(''recommendations'' \<mapsto>
                    PList (recos @ [PDict (fmap_of_list
                      [(''text'', PStr text), (''priority'', PNum (of_int priority))])])))
         | _ \<Rightarrow> Inl AttributeError)"

text \<open>\<^verbatim>\<open>max(moves, key=lambda m: m.get("score", 0.0))\<close>: the first item is the
  candidate, and a later item replaces it when its key is strictly greater.\<close>

fun max_loop :: "pyval \<Rightarrow> pyval \<Rightarrow> pyval list \<Rightarrow> error + pyval" where
  "max_loop best best_key [] = Inr best"
| "max_loop best best_key (m # ms) =
     (case attr_get m ''score'' (PNum 0) of
        Inl e \<Rightarrow> Inl e
      | Inr k \<Rightarrow>
          (case py_gt k best_key of
             Inl e \<Rightarrow> Inl e
           | Inr b \<Rightarrow> if b then max_loop m k ms else max_loop best best_key ms))"

definition max_by_score :: "pyval list \<Rightarrow> error + pyval" where
  "max_by_score ms =
     (case ms of
        [] \<Rightarrow> Inl ValueError
      | m # rest \<Rightarrow> err_bind (attr_get m ''score'' (PNum 0)) (\<lambda>k. max_loop m k rest))"

definition compute_best_move :: "FactBase \<Rightarrow> error + pyval" where
  "compute_best_move f =
     (let moves = dict_get f ''my_moves'' (PList [])
      in if \<not> truthy moves then Inr PNone
         else err_bind (py_iter moves) max_by_score)"

text \<open>\<^verbatim>\<open>f["best_move"][k]\<close>.\<close>

definition best_move_item :: "FactBase \<Rightarrow> string \<Rightarrow> error + pyval" where
  "best_move_item f k = err_bind (getitem f ''best_move'') (\<lambda>b. subscript b k)"

text \<open>\<^verbatim>\<open>all(m.get("score", 0.0) < 30 for m in ...)\<close>, stopping at the first item that
  is not below 30.\<close>

fun all_scores_below_30 :: "pyval list \<Rightarrow> error + bool" where
  "all_scores_below_30 [] = Inr True"
| "all_scores_below_30 (m # ms) =
     (case attr_get m ''score'' (PNum 0) of
        Inl e \<Rightarrow> Inl e
      | Inr s \<Rightarrow>
          (case py_lt s (PNum 30) of
             Inl e \<Rightarrow> Inl e
           | Inr b \<Rightarrow> if b then all_scores_below_30 ms else Inr False))"

text \<open>The rules, in the order \<^verbatim>\<open>rules()\<close> appends them. The three whose text prints a
  value of the store take the printing function \<open>fmt\<close>.\<close>

definition R1_ATTACK_WITH_TYPE_ADVANTAGE :: "Rule" where
  "R1_ATTACK_WITH_TYPE_ADVANTAGE =
     \<lparr>name = ''R1_ATTACK_WITH_TYPE_ADVANTAGE'',
      whenf = (\<lambda>f. py_and (err_bind (getitem f ''my_hp_pct'') (\<lambda>v. py_ge v (PNum 60)))
                      (Inr (dict_get f ''my_advantage'' PNone = PBool True))),
      thenf = (\<lambda>f. add_reco f
                (''Tienes mucha vida y ventaja de tipos: atacar es una buena opci'' @
                 [CHR 0xC3, CHR 0xB3] @ ''n.'')
                80),
      explain = ''Con vida alta y ventaja de tipos, es razonable jugar ofensivo.''\<rparr>"

definition R2_SWITCH_IF_LOW_HP_AND_ENEMY_ADVANTAGE :: "Rule" where
  "R2_SWITCH_IF_LOW_HP_AND_ENEMY_ADVANTAGE =
     \<lparr>name = ''R2_SWITCH_IF_LOW_HP_AND_ENEMY_ADVANTAGE'',
      whenf = (\<lambda>f. py_and (err_bind (getitem f ''my_hp_pct'') (\<lambda>v. py_le v (PNum 35)))
                      (Inr (dict_get f ''enemy_advantage'' PNone = PBool True))),
      thenf = (\<lambda>f. add_reco f
                (''Est'' @ [CHR 0xC3, CHR 0xA1] @
                 ''s en desventaja de tipos y con poca vida: se recomienda cambiar '' @
                 ''de Pok'' @ [CHR 0xC3, CHR 0xA9] @ ''mon.'')
                95),
      explain = ''En desventaja clara y con poca vida, lo experto es pivotar a otro '' @
                ''Pok'' @ [CHR 0xC3, CHR 0xA9] @ ''mon.''\<rparr>"

definition R3_FINISH_ENEMY_IF_LOW_HP :: "Rule" where
  "R3_FINISH_ENEMY_IF_LOW_HP =
     \<lparr>name = ''R3_FINISH_ENEMY_IF_LOW_HP'',
      whenf = (\<lambda>f. py_and (err_bind (getitem f ''enemy_hp_pct'') (\<lambda>v. py_le v (PNum 25)))
                      (Inr (dict_get f ''my_advantage'' PNone = PBool True))),
      thenf = (\<lambda>f. add_reco f
                (''El rival est'' @ [CHR 0xC3, CHR 0xA1] @
                 '' muy tocado y tienes ventaja: intenta rematarlo este turno.'')
                90),
      explain = ''Con el rival en vida baja y ventaja, conviene buscar el KO.''\<rparr>"

definition R4_NEUTRAL_PLAY_IF_NO_CLEAR_ADVANTAGE :: "Rule" where
  "R4_NEUTRAL_PLAY_IF_NO_CLEAR_ADVANTAGE =
     \<lparr>name = ''R4_NEUTRAL_PLAY_IF_NO_CLEAR_ADVANTAGE'',
      whenf = (\<lambda>f. py_and (err_bind (getitem f ''my_hp_pct'') (\<lambda>v. py_ge v (PNum 50)))
                      (py_and (err_bind (getitem f ''enemy_hp_pct'') (\<lambda>v. py_ge v (PNum 50)))
                      (py_and (Inr (\<not> truthy (dict_get f ''my_advantage'' PNone)))
                      (Inr (\<not> truthy (dict_get f ''enemy_advantage'' PNone)))))),
      thenf = (\<lambda>f. add_reco f
                (''No hay ventaja clara de tipos: puedes optar por un movimiento '' @
                 ''seguro o ver qu'' @ [CHR 0xC3, CHR 0xA9] @ '' hace el rival.'')
                50),
      explain = ''En emparejamientos neutros se recomienda jugar de forma segura.''\<rparr>"

definition R5_RISKY_PLAY_IF_BOTH_LOW :: "Rule" where
  "R5_RISKY_PLAY_IF_BOTH_LOW =
     \<lparr>name = ''R5_RISKY_PLAY_IF_BOTH_LOW'',
      whenf = (\<lambda>f. py_and (err_bind (getitem f ''my_hp_pct'') (\<lambda>v. py_le v (PNum 30)))
                      (err_bind (getitem f ''enemy_hp_pct'') (\<lambda>v. py_le v (PNum 30)))),
      thenf = (\<lambda>f. add_reco f
                (''Ambos est'' @ [CHR 0xC3, CHR 0xA1] @
                 ''is muy bajos de vida: cualquier turno puede decidir el combate.'')
                70),
      explain = ''Con ambos Pok'' @ [CHR 0xC3, CHR 0xA9] @ ''mon en vida cr'' @
                [CHR 0xC3, CHR 0xAD] @ ''tica, cada decisi'' @ [CHR 0xC3, CHR 0xB3] @
                ''n tiene mucho impacto.''\<rparr>"

definition D1_COMPUTE_BEST_MOVE :: "Rule" where
  "D1_COMPUTE_BEST_MOVE =
     \<lparr>name = ''D1_COMPUTE_BEST_MOVE'',
      whenf = (\<lambda>f. py_and (Inr (''best_move'' \<notin> dom f))
                      (err_bind (py_len (dict_get f ''my_moves'' (PList []))) (\<lambda>n. Inr (n > 0)))),
      thenf = (\<lambda>f. err_bind (compute_best_move f) (\<lambda>b. Inr (f(''best_move'' \<mapsto> b)))),
      explain = ''Se calcula el mejor movimiento disponible seg'' @ [CHR 0xC3, CHR 0xBA] @
                ''n efectividad, potencia y STAB.''\<rparr>"

definition R6_USE_SUPER_EFFECTIVE :: "(pyval \<Rightarrow> string) \<Rightarrow> Rule" where
  "R6_USE_SUPER_EFFECTIVE fmt =
     \<lparr>name = ''R6_USE_SUPER_EFFECTIVE'',
      whenf = (\<lambda>f. py_and (Inr (dict_get f ''best_move'' PNone \<noteq> PNone))
                      (err_bind (best_move_item f ''eff'') (\<lambda>e. py_ge e (PNum 2)))),
      thenf = (\<lambda>f. err_bind (best_move_item f ''name'') (\<lambda>v1.
                err_bind (best_move_item f ''eff'') (\<lambda>v2.
                  add_reco f
                    (''Tu mejor opci'' @ [CHR 0xC3, CHR 0xB3] @ ''n ofensiva es '' @
                     py_format fmt v1 @ '' (efectividad x'' @ py_format fmt v2 @ '').'')
                    92))),
      explain = ''Cuando hay un movimiento s'' @ [CHR 0xC3, CHR 0xBA] @
                ''per eficaz, se prioriza ese ataque.''\<rparr>"

definition R7_USE_NEUTRAL_BEST :: "(pyval \<Rightarrow> string) \<Rightarrow> Rule" where
  "R7_USE_NEUTRAL_BEST fmt =
     \<lparr>name = ''R7_USE_NEUTRAL_BEST'',
      whenf = (\<lambda>f. py_and (Inr (dict_get f ''best_move'' PNone \<noteq> PNone))
                      (err_bind (best_move_item f ''eff'')
                         (\<lambda>e. py_and (py_lt (PNum (1/2)) e) (py_lt e (PNum 2))))),
      thenf = (\<lambda>f. err_bind (best_move_item f ''name'') (\<lambda>v1.
                  add_reco f
                    (''No tienes movimientos s'' @ [CHR 0xC3, CHR 0xBA] @
                     ''per eficaces. Usa '' @ py_format fmt v1 @ '' como mejor opci'' @
                     [CHR 0xC3, CHR 0xB3] @ ''n neutral.'')
                    75)),
      explain = ''Cuando no hay ventaja de tipos, se usa el movimiento neutral m'' @
                [CHR 0xC3, CHR 0xA1] @ ''s fuerte.''\<rparr>"

definition R8_SWITCH_IF_ALL_RESISTED :: "Rule" where
  "R8_SWITCH_IF_ALL_RESISTED =
     \<lparr>name = ''R8_SWITCH_IF_ALL_RESISTED'',
      whenf = (\<lambda>f. py_and (Inr (dict_get f ''best_move'' PNone \<noteq> PNone))
                      (py_and (err_bind (best_move_item f ''eff'') (\<lambda>e. py_le e (PNum (1/2))))
                      (err_bind (getitem f ''enemy_hp_pct'') (\<lambda>v. py_ge v (PNum 40))))),
      thenf = (\<lambda>f. add_reco f
                (''Tus movimientos son poco eficaces contra el rival. Plant'' @
                 [CHR 0xC3, CHR 0xA9] @ ''ate cambiar de Pok'' @ [CHR 0xC3, CHR 0xA9] @
                 ''mon.'')
                85),
      explain = ''Si todo lo que tienes es resistido y el rival tiene bastante '' @
                ''vida, es preferible cambiar.''\<rparr>"

definition R9_DEFEND_IF_VERY_LOW_HP_NO_KO :: "Rule" where
  "R9_DEFEND_IF_VERY_LOW_HP_NO_KO =
     \<lparr>name = ''R9_DEFEND_IF_VERY_LOW_HP_NO_KO'',
      whenf = (\<lambda>f. py_and (err_bind (getitem f ''my_hp_pct'') (\<lambda>v. py_le v (PNum 25)))
                      (py_and (Inr (truthy (dict_get f ''has_defensive_move'' PNone)))
                      (py_or (Inr (dict_get f ''best_move'' PNone = PNone)) (err_bind (best_move_item f ''eff'') (\<lambda>e. py_lt e (PNum 2)))))),
      thenf = (\<lambda>f. add_reco f
                (''Tienes poca vida y no parece que puedas hacer un KO claro: usar '' @
                 ''un movimiento defensivo/curaci'' @ [CHR 0xC3, CHR 0xB3] @
                 ''n es razonable.'')
                88),
      explain = ''Si no hay opci'' @ [CHR 0xC3, CHR 0xB3] @
                ''n clara de eliminar al rival y est'' @ [CHR 0xC3, CHR 0xA1] @
                ''s muy tocado, prioriza sobrevivir.''\<rparr>"

definition R10_FINISH_WITH_PRIORITY :: "Rule" where
  "R10_FINISH_WITH_PRIORITY =
     \<lparr>name = ''R10_FINISH_WITH_PRIORITY'',
      whenf = (\<lambda>f. py_and (err_bind (getitem f ''enemy_hp_pct'') (\<lambda>v. py_le v (PNum 25)))
                      (Inr (truthy (dict_get f ''has_priority_move'' PNone)))),
      thenf = (\<lambda>f. add_reco f
                (''El rival est'' @ [CHR 0xC3, CHR 0xA1] @
                 '' muy bajo de vida y tienes un movimiento de prioridad: es buena '' @
                 ''idea usarlo para asegurar el KO.'')
                93),
      explain = ''La prioridad reduce el riesgo de que el rival te golpee antes en '' @
                ''esta situaci'' @ [CHR 0xC3, CHR 0xB3] @ ''n.''\<rparr>"

definition R11_SWITCH_IF_SLOW_AND_WEAK :: "Rule" where
  "R11_SWITCH_IF_SLOW_AND_WEAK =
     \<lparr>name = ''R11_SWITCH_IF_SLOW_AND_WEAK'',
      whenf = (\<lambda>f. py_and (err_bind (getitem f ''my_hp_pct'') (\<lambda>v. py_le v (PNum 40)))
                      (py_and (Inr (truthy (dict_get f ''is_slower'' PNone)))
                      (Inr (truthy (dict_get f ''enemy_advantage'' PNone))))),
      thenf = (\<lambda>f. add_reco f
                (''Eres m'' @ [CHR 0xC3, CHR 0xA1] @
                 ''s lento, el rival tiene ventaja de tipos y vas justo de vida: la '' @
                 ''opci'' @ [CHR 0xC3, CHR 0xB3] @ ''n m'' @ [CHR 0xC3, CHR 0xA1] @
                 ''s segura es cambiar de Pok'' @ [CHR 0xC3, CHR 0xA9] @ ''mon.'')
                97),
      explain = ''Ser m'' @ [CHR 0xC3, CHR 0xA1] @
                ''s lento en desventaja de tipos aumenta la probabilidad de caer '' @
                ''antes de actuar.''\<rparr>"

definition R12_ATTACK_IF_FASTER_AND_OK_HP :: "Rule" where
  "R12_ATTACK_IF_FASTER_AND_OK_HP =
     \<lparr>name = ''R12_ATTACK_IF_FASTER_AND_OK_HP'',
      whenf = (\<lambda>f. py_and (err_bind (getitem f ''my_hp_pct'') (\<lambda>v. py_ge v (PNum 40)))
                      (py_and (Inr (truthy (dict_get f ''is_faster'' PNone)))
                      (py_and (Inr (dict_get f ''best_move'' PNone \<noteq> PNone))
                      (err_bind (best_move_item f ''eff'') (\<lambda>e. py_ge e (PNum 1)))))),
      thenf = (\<lambda>f. add_reco f
                (''Eres m'' @ [CHR 0xC3, CHR 0xA1] @ ''s r'' @ [CHR 0xC3, CHR 0xA1] @
                 ''pido, tienes vida razonable y un movimiento al menos neutral: '' @
                 ''atacar es una jugada s'' @ [CHR 0xC3, CHR 0xB3] @ ''lida.'')
                78),
      explain = ''Ser m'' @ [CHR 0xC3, CHR 0xA1] @ ''s r'' @ [CHR 0xC3, CHR 0xA1] @
                ''pido permite presionar al rival antes de que act'' @ [CHR 0xC3, CHR 0xBA] @
                ''e.''\<rparr>"

definition R13_STRONG_PRESSURE_IF_FASTER_SUPER_EFFECTIVE :: "Rule" where
  "R13_STRONG_PRESSURE_IF_FASTER_SUPER_EFFECTIVE =
     \<lparr>name = ''R13_STRONG_PRESSURE_IF_FASTER_SUPER_EFFECTIVE'',
      whenf = (\<lambda>f. py_and (err_bind (getitem f ''my_hp_pct'') (\<lambda>v. py_and (py_le (PNum 40) v) (py_le v (PNum 80))))
                      (py_and (err_bind (getitem f ''enemy_hp_pct'') (\<lambda>v. py_and (py_le (PNum 40) v) (py_le v (PNum 80))))
                      (py_and (Inr (truthy (dict_get f ''is_faster'' PNone)))
                      (py_and (Inr (dict_get f ''best_move'' PNone \<noteq> PNone))
                      (err_bind (best_move_item f ''eff'') (\<lambda>e. py_ge e (PNum 2))))))),
      thenf = (\<lambda>f. add_reco f
                (''Tienes un movimiento s'' @ [CHR 0xC3, CHR 0xBA] @ ''per eficaz siendo m'' @
                 [CHR 0xC3, CHR 0xA1] @ ''s r'' @ [CHR 0xC3, CHR 0xA1] @
                 ''pido y ambos est'' @ [CHR 0xC3, CHR 0xA1] @
                 ''is a media vida: presionar fuerte puede darte una gran ventaja.'')
                89),
      explain = ''En situaciones equilibradas, un ataque s'' @ [CHR 0xC3, CHR 0xBA] @
                ''per eficaz y r'' @ [CHR 0xC3, CHR 0xA1] @
                ''pido suele decantar el combate.''\<rparr>"

definition R14_NO_GOOD_MOVES_WARNING :: "Rule" where
  "R14_NO_GOOD_MOVES_WARNING =
     \<lparr>name = ''R14_NO_GOOD_MOVES_WARNING'',
      whenf = (\<lambda>f. py_and (err_bind (py_len (dict_get f ''my_moves'' (PList []))) (\<lambda>n. Inr (n > 0)))
                      (err_bind (getitem f ''my_moves'') (\<lambda>v. err_bind (py_iter v) all_scores_below_30))),
      thenf = (\<lambda>f. add_reco f
                (''Ninguno de tus movimientos parece especialmente bueno (baja '' @
                 ''potencia o poco eficaz). Plant'' @ [CHR 0xC3, CHR 0xA9] @
                 ''ate cambiar si es posible.'')
                60),
      explain = ''Si todos los movimientos tienen mala puntuaci'' @ [CHR 0xC3, CHR 0xB3] @
                ''n, quiz'' @ [CHR 0xC3, CHR 0xA1] @ '' otro Pok'' @ [CHR 0xC3, CHR 0xA9] @
                ''mon tenga mejores opciones.''\<rparr>"

definition R15_NO_MOVES_INFO :: "Rule" where
  "R15_NO_MOVES_INFO =
     \<lparr>name = ''R15_NO_MOVES_INFO'',
      whenf = (\<lambda>f. err_bind (py_len (dict_get f ''my_moves'' (PList []))) (\<lambda>n. Inr (n = 0))),
      thenf = (\<lambda>f. add_reco f
                (''No se han especificado movimientos, solo puedo recomendar de '' @
                 ''forma general seg'' @ [CHR 0xC3, CHR 0xBA] @ ''n tipos y vida.'')
                40),
      explain = ''La ausencia de informaci'' @ [CHR 0xC3, CHR 0xB3] @
                ''n sobre movimientos limita la precisi'' @ [CHR 0xC3, CHR 0xB3] @
                ''n de las recomendaciones.''\<rparr>"

definition R16_SAME_MAIN_TYPE_BATTLE :: "(pyval \<Rightarrow> string) \<Rightarrow> Rule" where
  "R16_SAME_MAIN_TYPE_BATTLE fmt =
     \<lparr>name = ''R16_SAME_MAIN_TYPE_BATTLE'',
      whenf = (\<lambda>f. py_and (err_bind (py_len (dict_get f ''my_types'' (PList []))) (\<lambda>n. Inr (n > 0)))
                      (py_and (err_bind (py_len (dict_get f ''enemy_types'' (PList []))) (\<lambda>n. Inr (n > 0)))
                      (py_and (err_bind (getitem f ''my_types'') (\<lambda>a. err_bind (subscript0 a) (\<lambda>x.
                         err_bind (getitem f ''enemy_types'') (\<lambda>b. err_bind (subscript0 b) (\<lambda>y.
                         Inr (py_eq x y))))))
                      (py_and (Inr (\<not> truthy (dict_get f ''my_advantage'' PNone)))
                      (Inr (\<not> truthy (dict_get f ''enemy_advantage'' PNone))))))),
      thenf = (\<lambda>f. add_reco f
                  (''Tu '' @ py_format fmt (dict_get f ''my_pokemon'' (PStr (''Pok'' @
                   [CHR 0xC3, CHR 0xA9] @ ''mon''))) @
                   '' comparte el mismo tipo principal que '' @
                   py_format fmt (dict_get f ''enemy_pokemon'' (PStr (''el rival''))) @
                   '': los movimientos de cobertura de otros tipos pueden ser '' @
                   ''decisivos.'')
                  65),
      explain = ''En combates de mismo tipo, los movimientos de cobertura suelen '' @
                ''marcar la diferencia.''\<rparr>"

definition R17_EXPLAIN_TYPE_ADVANTAGE_WITH_NAMES :: "Rule" where
  "R17_EXPLAIN_TYPE_ADVANTAGE_WITH_NAMES =
     \<lparr>name = ''R17_EXPLAIN_TYPE_ADVANTAGE_WITH_NAMES'',
      whenf = (\<lambda>f. py_and (Inr (truthy (dict_get f ''my_pokemon'' PNone)))
                      (py_and (Inr (truthy (dict_get f ''enemy_pokemon'' PNone)))
                      (Inr (truthy (dict_get f ''my_advantage'' PNone))))),
      thenf = (\<lambda>f. err_bind (getitem f ''my_pokemon'') (\<lambda>v1. err_bind (py_capitalize v1) (\<lambda>s1.
                err_bind (getitem f ''enemy_pokemon'') (\<lambda>v2. err_bind (py_capitalize v2) (\<lambda>s2.
                  add_reco f
                    (s1 @ '' tiene ventaja de tipos sobre '' @ s2 @
                     '': mantener este emparejamiento suele ser beneficioso.'')
                    55))))),
      explain = ''Se ofrece una explicaci'' @ [CHR 0xC3, CHR 0xB3] @ ''n espec'' @
                [CHR 0xC3, CHR 0xAD] @
                ''fica de la ventaja de tipos usando los nombres de los Pok'' @
                [CHR 0xC3, CHR 0xA9] @ ''mon.''\<rparr>"

definition rules :: "(pyval \<Rightarrow> string) \<Rightarrow> Rule list" where
  "rules fmt =
     [R1_ATTACK_WITH_TYPE_ADVANTAGE,
      R2_SWITCH_IF_LOW_HP_AND_ENEMY_ADVANTAGE,
      R3_FINISH_ENEMY_IF_LOW_HP,
      R4_NEUTRAL_PLAY_IF_NO_CLEAR_ADVANTAGE,
      R5_RISKY_PLAY_IF_BOTH_LOW,
      D1_COMPUTE_BEST_MOVE,
      R6_USE_SUPER_EFFECTIVE fmt,
      R7_USE_NEUTRAL_BEST fmt,
      R8_SWITCH_IF_ALL_RESISTED,
      R9_DEFEND_IF_VERY_LOW_HP_NO_KO,
      R10_FINISH_WITH_PRIORITY,
      R11_SWITCH_IF_SLOW_AND_WEAK,
      R12_ATTACK_IF_FASTER_AND_OK_HP,
      R13_STRONG_PRESSURE_IF_FASTER_SUPER_EFFECTIVE,
      R14_NO_GOOD_MOVES_WARNING,
      R15_NO_MOVES_INFO,
      R16_SAME_MAIN_TYPE_BATTLE fmt,
      R17_EXPLAIN_TYPE_ADVANTAGE_WITH_NAMES]"

section \<open>Notions used to state the properties\<close>

text \<open>The trace, the fired set and a list of rules \<open>fl\<close> tell the same story: the
  trace holds one line per rule of \<open>fl\<close>, in order, the fired set holds their names, and no
  name occurs twice.\<close>

definition log_inv :: "engine_state \<Rightarrow> Rule list \<Rightarrow> bool" where
  "log_inv st fl \<longleftrightarrow>
     cur_trace st = map trace_line fl \<and> fired st = name ` set fl \<and> distinct (map name fl)"

text \<open>Two small rules for running the engine: \<open>A\<close> is always eligible and sets
  \<^verbatim>\<open>"a"\<close>; \<open>B\<close> needs \<^verbatim>\<open>"a"\<close> in the store and sets \<^verbatim>\<open>"b"\<close>. In
  Python: \<^verbatim>\<open>Rule("A", lambda f: True, lambda f: f.__setitem__("a", True), "a holds")\<close>
  and \<^verbatim>\<open>Rule("B", lambda f: "a" in f, lambda f: f.__setitem__("b", True), "b follows from a")\<close>.\<close>

definition rule_A :: Rule where
  "rule_A = \<lparr>name = ''A'', whenf = (\<lambda>f. Inr True),
              thenf = (\<lambda>f. Inr (f(''a'' \<mapsto> PBool True))), explain = ''a holds''\<rparr>"

definition rule_B :: Rule where
  "rule_B = \<lparr>name = ''B'', whenf = (\<lambda>f. Inr (''a'' \<in> dom f)),
              thenf = (\<lambda>f. Inr (f(''b'' \<mapsto> PBool True))), explain = ''b follows from a''\<rparr>"

definition no_facts :: FactBase where
  "no_facts = Map.empty"

definition facts_a :: FactBase where
  "facts_a = [''a'' \<mapsto> PBool True]"

definition facts_ab :: FactBase where
  "facts_ab = [''a'' \<mapsto> PBool True, ''b'' \<mapsto> PBool True]"

text \<open>What \<^verbatim>\<open>forward_chain({}, [A, B])\<close> returns when the set is iterated \<open>B\<close> first,
  and what \<^verbatim>\<open>forward_chain({}, [B, A], max_loops=1)\<close> returns.\<close>

definition result_AB :: InferenceResult where
  "result_AB = \<lparr>facts = facts_ab, fired_rules = [''B'', ''A''],
                 trace = [''[A] a holds'', ''[B] b follows from a'']\<rparr>"

definition result_BA_capped :: InferenceResult where
  "result_BA_capped = \<lparr>facts = facts_a, fired_rules = [''A''], trace = [''[A] a holds'']\<rparr>"


section \<open>The engine: what a sweep and a run do\<close>


lemma sweep_append:
  "sweep (rs1 @ rs2) st = err_bind (sweep rs1 st) (sweep rs2)"
  by (induction rs1 arbitrary: st) (simp_all add: err_bind_def split: sum.splits)

lemma sweep_log_append:
  "sweep rs1 st = Inr st1 \<Longrightarrow> sweep_log (rs1 @ rs2) st = sweep_log rs1 st @ sweep_log rs2 st1"
  by (induction rs1 arbitrary: st) (auto split: sum.splits if_splits)

lemma fire_simps [simp]:
  "cur_facts (fire r f' st) = f'"
  "fired (fire r f' st) = insert (name r) (fired st)"
  "fired_any (fire r f' st) = True"
  "cur_trace (fire r f' st) = cur_trace st @ [trace_line r]"
  by (simp_all add: fire_def)

lemma sweep_effects:
  "sweep rs st = Inr st' \<Longrightarrow>
     cur_trace st' = cur_trace st @ map trace_line (sweep_log rs st) \<and>
     fired st' = fired st \<union> name ` set (sweep_log rs st) \<and>
     fired_any st' = (fired_any st \<or> sweep_log rs st \<noteq> []) \<and>
     distinct (map name (sweep_log rs st)) \<and>
     name ` set (sweep_log rs st) \<inter> fired st = {} \<and>
     set (sweep_log rs st) \<subseteq> set rs"
proof (induction rs arbitrary: st)
  case Nil
  then show ?case by simp
next
  case (Cons r rs)
  show ?case
  proof (cases "name r \<in> fired st")
    case True
    with Cons.prems have "sweep rs st = Inr st'" by simp
    from Cons.IH [OF this] True show ?thesis by auto
  next
    case False
    from Cons.prems False obtain b where b: "whenf r (cur_facts st) = Inr b"
      by (auto split: sum.splits)
    show ?thesis
    proof (cases b)
      case False
      with Cons.prems b \<open>name r \<notin> fired st\<close> have "sweep rs st = Inr st'" by simp
      from Cons.IH [OF this] b False \<open>name r \<notin> fired st\<close> show ?thesis by auto
    next
      case True
      with Cons.prems b \<open>name r \<notin> fired st\<close> obtain f' where
        f': "thenf r (cur_facts st) = Inr f'" and run: "sweep rs (fire r f' st) = Inr st'"
        by (auto split: sum.splits)
      have fl: "sweep_log (r # rs) st = r # sweep_log rs (fire r f' st)"
        using b True f' \<open>name r \<notin> fired st\<close> by simp
      from Cons.IH [OF run] show ?thesis
        unfolding fl using \<open>name r \<notin> fired st\<close> by auto
    qed
  qed
qed


lemma log_inv_init: "log_inv (init_state f) []"
  by (simp add: log_inv_def init_state_def)

lemma log_inv_sweep:
  assumes "sweep rs (st\<lparr>fired_any := False\<rparr>) = Inr st'" and "log_inv st fl"
  shows "log_inv st' (fl @ sweep_log rs (st\<lparr>fired_any := False\<rparr>))"
  using sweep_effects [OF assms(1)] assms(2)
  by (auto simp: log_inv_def)

lemma log_inv_loop:
  "loop n rs st = Inr st' \<Longrightarrow> log_inv st fl \<Longrightarrow>
     log_inv st' (fl @ concat (sweep_logs n rs st))"
proof (induction n arbitrary: st fl)
  case 0
  then show ?case by simp
next
  case (Suc n)
  from Suc.prems(1) obtain st1 where
    s1: "sweep rs (st\<lparr>fired_any := False\<rparr>) = Inr st1"
    by (auto split: sum.splits)
  note inv1 = log_inv_sweep [OF s1 Suc.prems(2)]
  show ?case
  proof (cases "fired_any st1")
    case False
    with Suc.prems(1) s1 have "st' = st1" by simp
    with inv1 s1 False show ?thesis by simp
  next
    case True
    with Suc.prems(1) s1 have "loop n rs st1 = Inr st'" by simp
    from Suc.IH [OF this inv1] s1 True show ?thesis by simp
  qed
qed

lemma sweep_log_subset: "set (sweep_log rs st) \<subseteq> set rs"
  by (induction rs arbitrary: st) (auto split: sum.splits)

lemma sweep_logs_member: "l \<in> set (sweep_logs n rs st) \<Longrightarrow> set l \<subseteq> set rs"
proof (induction n arbitrary: st)
  case 0
  then show ?case by simp
next
  case (Suc n)
  then show ?case
    using sweep_log_subset [of rs "st\<lparr>fired_any := False\<rparr>"]
    by (auto split: sum.splits if_splits)
qed

lemma sweep_logs_subset: "set (concat (sweep_logs n rs st)) \<subseteq> set rs"
  using sweep_logs_member by fastforce










lemmas run_defs = forward_chain_def init_state_def rule_A_def rule_B_def fire_def
  trace_line_def slot_order_def no_facts_def facts_a_def facts_ab_def result_AB_def
  result_BA_capped_def run_logs_def firing_order_def sweeps_done_def numeral_eq_Suc lists_set_def

lemma run_AB:
  "forward_chain (slot_order [''B'', ''A'']) no_facts [rule_A, rule_B] 20 = Inr result_AB"
  by (simp add: run_defs)

lemma logs_AB: "run_logs no_facts [rule_A, rule_B] 20 = [[rule_A, rule_B], []]"
  by (simp add: run_defs)



lemma logs_BA: "run_logs no_facts [rule_B, rule_A] 20 = [[rule_A], [rule_B], []]"
  by (simp add: run_defs)



lemma names_AB: "name rule_A = ''A''" "name rule_B = ''B''"
  by (simp_all add: rule_A_def rule_B_def)

lemma lists_set_BA: "lists_set (slot_order [''B'', ''A'']) {''A'', ''B''}"
  "lists_set (slot_order [''B'', ''A'']) {''A''}"
  by (auto simp add: lists_set_def slot_order_def)

lemma count_list_distinct: "distinct xs \<Longrightarrow> count_list xs x \<le> 1"
  by (induction xs) (auto simp: count_list_0_iff)

lemma forward_chain_inv:
  assumes "forward_chain list_of f rs m = Inr res"
  shows "trace res = map trace_line (firing_order f rs m)"
    and "fired_rules res = list_of (name ` set (firing_order f rs m))"
    and "distinct (map name (firing_order f rs m))"
    and "set (firing_order f rs m) \<subseteq> set rs"
proof -
  from assms obtain st where run: "loop (nat m) rs (init_state f) = Inr st"
    and res: "res = \<lparr>facts = cur_facts st, fired_rules = list_of (fired st), trace = cur_trace st\<rparr>"
    by (auto simp: forward_chain_def split: sum.splits)
  from log_inv_loop [OF run log_inv_init]
  have inv: "log_inv st (firing_order f rs m)"
    by (simp add: firing_order_def run_logs_def)
  then show "trace res = map trace_line (firing_order f rs m)"
    and "fired_rules res = list_of (name ` set (firing_order f rs m))"
    and "distinct (map name (firing_order f rs m))"
    by (simp_all add: res log_inv_def)
  show "set (firing_order f rs m) \<subseteq> set rs"
    unfolding firing_order_def run_logs_def by (rule sweep_logs_subset)
qed

section \<open>The result of a run\<close>

text \<open>
  Claim C1 says that \<open>fired_rules\<close> lists the fired rule names in firing order, as the
  trace does. The code returns \<^verbatim>\<open>list(fired)\<close> of a set, whose order is the set's
  iteration order, not the firing order. With the rules \<open>A\<close> then \<open>B\<close> on the empty
  store both fire in the first sweep, \<open>A\<close> first; when the set happens to be iterated
  \<open>B\<close> first (which Python allows), \<open>fired_rules\<close> is \<^verbatim>\<open>["B", "A"]\<close> while the rules fired
  in the order \<^verbatim>\<open>["A", "B"]\<close>.
\<close>

theorem C1_counterexample:
  "forward_chain (slot_order [''B'', ''A'']) no_facts [rule_A, rule_B] 20 = Inr result_AB \<and>
   lists_set (slot_order [''B'', ''A'']) (name ` set (firing_order no_facts [rule_A, rule_B] 20)) \<and>
   map name (firing_order no_facts [rule_A, rule_B] 20) = [''A'', ''B''] \<and>
   fired_rules result_AB = [''B'', ''A''] \<and>
   fired_rules result_AB \<noteq> map name (firing_order no_facts [rule_A, rule_B] 20)"
  using run_AB lists_set_BA(1)
  by (simp add: firing_order_def logs_AB names_AB result_AB_def)

text \<open>
  Claim C1, amended: the result holds the names of the rules that fired, each exactly once,
  in no particular order (they come out of a set); only the trace is in firing order.
\<close>

theorem C1_fired_rules_as_a_set:
  assumes "forward_chain list_of f rs m = Inr res"
      and "lists_set list_of (name ` set (firing_order f rs m))"
  shows "set (fired_rules res) = name ` set (firing_order f rs m) \<and>
         distinct (fired_rules res) \<and>
         length (fired_rules res) = length (firing_order f rs m) \<and>
         trace res = map trace_line (firing_order f rs m)"
proof -
  note inv = forward_chain_inv [OF assms(1)]
  from assms(2) inv(2) have s: "set (fired_rules res) = name ` set (firing_order f rs m)"
    and d: "distinct (fired_rules res)"
    by (simp_all add: lists_set_def)
  have "length (fired_rules res) = card (set (fired_rules res))"
    using d by (simp add: distinct_card)
  also have "\<dots> = card (set (map name (firing_order f rs m)))"
    using s by simp
  also have "\<dots> = length (firing_order f rs m)"
    using inv(3) by (simp add: distinct_card del: set_map)
  finally show ?thesis using s d inv(1) by simp
qed

theorem C1_fired_rules_as_a_set_witness:
  "forward_chain (slot_order [''B'', ''A'']) no_facts [rule_A, rule_B] 20 = Inr result_AB \<and>
   lists_set (slot_order [''B'', ''A'']) (name ` set (firing_order no_facts [rule_A, rule_B] 20)) \<and>
   set (fired_rules result_AB) = {''A'', ''B''} \<and>
   distinct (fired_rules result_AB) \<and>
   length (fired_rules result_AB) = 2 \<and>
   trace result_AB = map trace_line [rule_A, rule_B]"
proof -
  have fo: "firing_order no_facts [rule_A, rule_B] 20 = [rule_A, rule_B]"
    by (simp add: firing_order_def logs_AB)
  have ls: "lists_set (slot_order [''B'', ''A'']) (name ` set (firing_order no_facts [rule_A, rule_B] 20))"
    using lists_set_BA(1) by (simp add: fo names_AB)
  from C1_fired_rules_as_a_set [OF run_AB ls] run_AB ls show ?thesis
    by (simp add: fo names_AB)
qed

text \<open>
  Claim C2: each rule fires at most once in a run, however many sweeps there are and whether
  or not its condition still holds after it fired. No name is repeated in
  \<open>fired_rules\<close>; the rules that fired, in order, have pairwise different names (so no rule
  occurs twice among them); and the trace holds exactly one line for each of them. This
  holds for every rule list: with two rules of one name the second is skipped once the first
  has fired.
\<close>

theorem C2_fires_at_most_once:
  assumes "forward_chain list_of f rs m = Inr res"
      and "lists_set list_of (name ` set (firing_order f rs m))"
  shows "distinct (fired_rules res) \<and>
         distinct (map name (firing_order f rs m)) \<and>
         trace res = map trace_line (firing_order f rs m) \<and>
         (\<forall>r\<in>set rs. count_list (fired_rules res) (name r) \<le> 1 \<and>
                     count_list (map name (firing_order f rs m)) (name r) \<le> 1 \<and>
                     count_list (firing_order f rs m) r \<le> 1)"
proof -
  note inv = forward_chain_inv [OF assms(1)]
  from assms(2) inv(2) have d: "distinct (fired_rules res)"
    by (simp add: lists_set_def)
  from inv(3) have d': "distinct (firing_order f rs m)"
    by (simp add: distinct_map)
  show ?thesis
    using d d' inv(1) inv(3)
    by (auto intro!: count_list_distinct simp del: One_nat_def)
qed

theorem C2_fires_at_most_once_witness:
  "forward_chain (slot_order [''B'', ''A'']) no_facts [rule_B, rule_A] 20 =
     Inr \<lparr>facts = facts_ab, fired_rules = [''B'', ''A''],
          trace = [''[A] a holds'', ''[B] b follows from a'']\<rparr> \<and>
   lists_set (slot_order [''B'', ''A'']) (name ` set (firing_order no_facts [rule_B, rule_A] 20)) \<and>
   run_logs no_facts [rule_B, rule_A] 20 = [[rule_A], [rule_B], []] \<and>
   whenf rule_A facts_ab = Inr True \<and>
   count_list [''B'', ''A''] (name rule_A) \<le> 1 \<and>
   count_list [''B'', ''A''] (name rule_B) \<le> 1 \<and>
   count_list (firing_order no_facts [rule_B, rule_A] 20) rule_A \<le> 1 \<and>
   count_list (firing_order no_facts [rule_B, rule_A] 20) rule_B \<le> 1"
proof -
  have run: "forward_chain (slot_order [''B'', ''A'']) no_facts [rule_B, rule_A] 20 =
     Inr \<lparr>facts = facts_ab, fired_rules = [''B'', ''A''],
          trace = [''[A] a holds'', ''[B] b follows from a'']\<rparr>"
    by (simp add: run_defs)
  have fo: "firing_order no_facts [rule_B, rule_A] 20 = [rule_A, rule_B]"
    by (simp add: firing_order_def logs_BA)
  have ls: "lists_set (slot_order [''B'', ''A'']) (name ` set (firing_order no_facts [rule_B, rule_A] 20))"
    using lists_set_BA(1) by (simp add: fo names_AB insert_commute)
  have w: "whenf rule_A facts_ab = Inr True"
    by (simp add: rule_A_def)
  from C2_fires_at_most_once [OF run ls] run ls w logs_BA show ?thesis
    by simp
qed



text \<open>
  Claim C10: in every result the trace has as many lines as there are distinct fired names,
  and its \<open>i\<close>-th line is \<^verbatim>\<open>"[name] explanation"\<close> of the \<open>i\<close>-th rule that fired, whose
  name is in \<open>fired_rules\<close>. As this holds for every cap \<open>m\<close>, it holds after every
  sweep.
\<close>

theorem C10_trace_follows_firings:
  assumes "forward_chain list_of f rs m = Inr res"
      and "lists_set list_of (name ` set (firing_order f rs m))"
  shows "length (trace res) = card (set (fired_rules res)) \<and>
         length (trace res) = length (fired_rules res) \<and>
         length (trace res) = length (firing_order f rs m) \<and>
         set (fired_rules res) = name ` set (firing_order f rs m) \<and>
         (\<forall>i<length (trace res).
            trace res ! i =
              ''['' @ name (firing_order f rs m ! i) @ ''] '' @ explain (firing_order f rs m ! i) \<and>
            name (firing_order f rs m ! i) \<in> set (fired_rules res))"
proof -
  note inv = forward_chain_inv [OF assms(1)]
  from assms(2) inv(2) have s: "set (fired_rules res) = name ` set (firing_order f rs m)"
    and d: "distinct (fired_rules res)"
    by (simp_all add: lists_set_def)
  have len: "length (trace res) = length (firing_order f rs m)"
    using inv(1) by simp
  have "card (set (fired_rules res)) = card (set (map name (firing_order f rs m)))"
    using s by simp
  also have "\<dots> = length (firing_order f rs m)"
    using inv(3) by (simp add: distinct_card del: set_map)
  finally have c: "card (set (fired_rules res)) = length (firing_order f rs m)" .
  have l: "length (fired_rules res) = card (set (fired_rules res))"
    using d by (simp add: distinct_card)
  show ?thesis
    using len c l s inv(1) by (simp add: trace_line_def)
qed

theorem C10_trace_follows_firings_witness:
  "forward_chain (slot_order [''B'', ''A'']) no_facts [rule_A, rule_B] 20 = Inr result_AB \<and>
   lists_set (slot_order [''B'', ''A'']) (name ` set (firing_order no_facts [rule_A, rule_B] 20)) \<and>
   length (trace result_AB) = 2 \<and> card (set (fired_rules result_AB)) = 2 \<and>
   trace result_AB ! 0 = ''['' @ name rule_A @ ''] '' @ explain rule_A \<and>
   trace result_AB ! 1 = ''['' @ name rule_B @ ''] '' @ explain rule_B"
proof -
  have fo: "firing_order no_facts [rule_A, rule_B] 20 = [rule_A, rule_B]"
    by (simp add: firing_order_def logs_AB)
  have ls: "lists_set (slot_order [''B'', ''A'']) (name ` set (firing_order no_facts [rule_A, rule_B] 20))"
    using lists_set_BA(1) by (simp add: fo names_AB)
  have len: "length (trace result_AB) = 2"
    by (simp add: result_AB_def)
  from C10_trace_follows_firings [OF run_AB ls] have
    c: "card (set (fired_rules result_AB)) = length (trace result_AB)" and
    t: "\<forall>i<length (trace result_AB). trace result_AB ! i =
              ''['' @ name (firing_order no_facts [rule_A, rule_B] 20 ! i) @ ''] '' @
              explain (firing_order no_facts [rule_A, rule_B] 20 ! i)"
    by simp_all
  from t have "trace result_AB ! 0 = ''['' @ name rule_A @ ''] '' @ explain rule_A"
    and "trace result_AB ! 1 = ''['' @ name rule_B @ ''] '' @ explain rule_B"
    unfolding len fo by (simp_all del: append.simps)
  with run_AB ls c len show ?thesis by simp
qed

section \<open>Type effectiveness and type advantage\<close>

lemma effectiveness_loop_prod:
  "effectiveness_loop a ds chart t =
     t * prod_list (map (\<lambda>d. pair_multiplier chart a (lower d)) ds)"
  by (induction ds arbitrary: t) (simp_all add: pair_multiplier_def Let_def)

text \<open>
  Claim C8 says that \<open>effectiveness\<close> multiplies the chart's multipliers of the pairs
  (attacking, defending), 1 for an absent pair. The code lowers both names before it looks
  them up: for the attacking type \<^verbatim>\<open>"Fire"\<close> against \<^verbatim>\<open>["grass"]\<close>, with a chart that
  holds 2 for (fire, grass), it returns 2, while the chart has no entry for the pair
  (Fire, grass), which the claim would count as 1.
\<close>

theorem C8_counterexample:
  "effectiveness ''Fire'' [''grass''] fire_grass_chart = 2 \<and>
   prod_list (map (pair_multiplier fire_grass_chart ''Fire'') [''grass'']) = 1"
  by (simp add: effectiveness_def fire_grass_chart_def lower_def lower_char_def
      pair_multiplier_def)

text \<open>
  Claim C8, amended: \<open>effectiveness\<close> returns the product, over the defending types, of
  the chart's multiplier for the lower-cased attacking and defending names, 1 for a pair
  absent from the chart.
\<close>

theorem C8_effectiveness_is_product_of_lowered_pairs:
  "effectiveness attacking defending_types chart =
     prod_list (map (\<lambda>d. pair_multiplier chart (lower attacking) (lower d)) defending_types)"
  by (simp add: effectiveness_def effectiveness_loop_prod)

lemma best_loop_no_defenders: "best_loop a [] chart 1 = 1"
  by (induction a) (simp_all add: effectiveness_def)

text \<open>
  Claim C9: the two versions of \<^verbatim>\<open>has_type_advantage\<close> return the same boolean on all
  type lists and charts; the extra guard of the Streamlit version changes nothing, since
  with no attacking type the best multiplier stays 1 and with no defending type
  \<open>effectiveness\<close> is 1, so the console version answers False there too.
\<close>

theorem C9_has_type_advantage_versions_agree:
  "has_type_advantage a d chart = has_type_advantage_streamlit a d chart \<and>
   has_type_advantage [] d chart = False \<and>
   has_type_advantage a [] chart = False \<and>
   effectiveness t [] chart = 1"
  by (simp add: has_type_advantage_def has_type_advantage_streamlit_def
      best_loop_no_defenders effectiveness_def)

end
